theory Spec2Isabelle
  imports Main "HOL-Library.Multiset" "HOL-Library.AList" "HOL-Library.Sublist"
begin

section \<open>Data model (shared/schema.ts)\<close>

text \<open>
  The text columns with an \<open>enum\<close> option are string-literal unions in TypeScript and
  become datatypes; \<open>dept_str\<close> and \<open>status_str\<close> give the string each
  constructor stands for, for the places where the code compares a column with a string
  that comes from a request or writes it into a message. Timestamps are natural numbers (milliseconds); a nullable
  column is an \<open>option\<close>.
\<close>

type_synonym timestamp = nat

datatype role = Student | Staff | Admin

datatype department = Medical | Security | Guidance | NoDept

datatype alert_status = Pending | Acknowledged | Dispatched | Resolved

fun dept_str :: "department \<Rightarrow> string" where
  "dept_str Medical = ''medical''"
| "dept_str Security = ''security''"
| "dept_str Guidance = ''guidance''"
| "dept_str NoDept = ''none''"

fun status_str :: "alert_status \<Rightarrow> string" where
  "status_str Pending = ''pending''"
| "status_str Acknowledged = ''acknowledged''"
| "status_str Dispatched = ''dispatched''"
| "status_str Resolved = ''resolved''"

text \<open>Table \<open>users\<close>; \<open>u_department\<close> has a default but is nullable.\<close>

record user =
  u_id :: string
  u_email :: string
  u_password :: string
  u_role :: role
  u_department :: "department option"
  u_fullName :: "string option"
  u_phoneNumber :: "string option"
  u_isActive :: bool
  u_createdAt :: timestamp
  u_lastLogin :: "timestamp option"

text \<open>Table \<open>alerts\<close>. The insert schema restricts \<open>a_department\<close> to medical and security.\<close>

record alert =
  a_id :: string
  a_userId :: string
  a_department :: department
  a_status :: alert_status
  a_latitude :: "string option"
  a_longitude :: "string option"
  a_locationName :: "string option"
  a_locationAccuracy :: "string option"
  a_situationData :: "(string \<times> string) list option"
  a_responseNotes :: "string option"
  a_acknowledgedAt :: "timestamp option"
  a_dispatchedAt :: "timestamp option"
  a_resolvedAt :: "timestamp option"
  a_acknowledgedBy :: "string option"
  a_createdAt :: timestamp

datatype chat_status = Active | Inactive | Closed

record chat_session =
  cs_id :: string
  cs_userId :: string
  cs_department :: department
  cs_anonymousId :: string
  cs_status :: chat_status
  cs_lastMessageAt :: "timestamp option"
  cs_createdAt :: timestamp
  cs_closedAt :: "timestamp option"

text \<open>Table \<open>messages\<close>; \<open>m_senderRole\<close> is student or staff.\<close>

record message =
  m_id :: string
  m_sessionId :: string
  m_senderId :: string
  m_senderRole :: role
  m_content :: string
  m_fileUrl :: "string option"
  m_fileName :: "string option"
  m_isRead :: bool
  m_createdAt :: timestamp

record audit_log =
  l_id :: string
  l_userId :: string
  l_action :: string
  l_targetType :: "string option"
  l_targetId :: "string option"
  l_details :: "(string \<times> string) list"
  l_createdAt :: timestamp

text \<open>The database: one list of rows per table, in insertion order.\<close>

record db =
  users :: "user list"
  alerts :: "alert list"
  chatSessions :: "chat_session list"
  messages :: "message list"
  auditLogs :: "audit_log list"

section \<open>Errors\<close>

text \<open>
  A handler answers an error with a status code and a message. Where the message is the
  text of an exception thrown by a library (zod, the database driver) and caught by the
  handler's \<open>catch\<close> block, the model keeps the kind of exception instead of the text.
\<close>

datatype exn = ZodError | ForeignKeyViolation | UniqueViolation

datatype error = HttpError nat string | Caught nat exn

fun status_code :: "error \<Rightarrow> nat" where
  "status_code (HttpError c m) = c"
| "status_code (Caught c e) = c"

section \<open>Storage (server/storage.ts)\<close>

definition getUser :: "db \<Rightarrow> string \<Rightarrow> user option" where
  "getUser d i = find (\<lambda>u. u_id u = i) (users d)"

definition getUserByEmail :: "db \<Rightarrow> string \<Rightarrow> user option" where
  "getUserByEmail d e = find (\<lambda>u. u_email u = e) (users d)"

definition getAlert :: "db \<Rightarrow> string \<Rightarrow> alert option" where
  "getAlert d i = find (\<lambda>a. a_id a = i) (alerts d)"

text \<open>\<open>ORDER BY created_at DESC\<close>.\<close>

definition getAlertsByDepartment :: "db \<Rightarrow> string \<Rightarrow> alert list" where
  "getAlertsByDepartment d dept =
     rev (sort_key a_createdAt (filter (\<lambda>a. dept_str (a_department a) = dept) (alerts d)))"

text \<open>
  The object passed to \<open>updateAlert\<close> by the status handler: \<open>status\<close> is always
  present, every other key only when the handler sets it (\<open>None\<close>: key absent, column
  untouched).
\<close>

record alert_update =
  upd_status :: alert_status
  upd_responseNotes :: "string option"
  upd_acknowledgedAt :: "timestamp option"
  upd_acknowledgedBy :: "string option"
  upd_dispatchedAt :: "timestamp option"
  upd_resolvedAt :: "timestamp option"

definition keep :: "'a option \<Rightarrow> 'a option \<Rightarrow> 'a option" where
  "keep new old = (case new of None \<Rightarrow> old | Some v \<Rightarrow> Some v)"

definition apply_update :: "alert_update \<Rightarrow> alert \<Rightarrow> alert" where
  "apply_update upd a =
     a\<lparr>a_status := upd_status upd,
       a_responseNotes := keep (upd_responseNotes upd) (a_responseNotes a),
       a_acknowledgedAt := keep (upd_acknowledgedAt upd) (a_acknowledgedAt a),
       a_acknowledgedBy := keep (upd_acknowledgedBy upd) (a_acknowledgedBy a),
       a_dispatchedAt := keep (upd_dispatchedAt upd) (a_dispatchedAt a),
       a_resolvedAt := keep (upd_resolvedAt upd) (a_resolvedAt a)\<rparr>"

text \<open>\<open>UPDATE alerts SET ... WHERE id = $1 RETURNING *\<close>, then the first returned row.\<close>

definition updateAlert :: "db \<Rightarrow> string \<Rightarrow> alert_update \<Rightarrow> alert option \<times> db" where
  "updateAlert d i upd =
     (let rows = map (\<lambda>a. if a_id a = i then apply_update upd a else a) (alerts d)
      in (find (\<lambda>a. a_id a = i) rows, d\<lparr>alerts := rows\<rparr>))"

section \<open>Middleware (server/routes.ts)\<close>

text \<open>
  The session is \<open>req.session.userId\<close>: absent (\<open>None\<close>) or a string. JavaScript's
  \<open>!s\<close> holds of the absent value and of the empty string.
\<close>

type_synonym session = "string option"

definition truthy :: "string \<Rightarrow> bool" where
  "truthy s = (s \<noteq> [])"

definition requireAuth :: "session \<Rightarrow> error + string" where
  "requireAuth sess =
     (case sess of
        None \<Rightarrow> Inl (HttpError 401 ''Unauthorized'')
      | Some uid \<Rightarrow> if \<not> truthy uid then Inl (HttpError 401 ''Unauthorized'') else Inr uid)"

definition requireRole :: "role list \<Rightarrow> db \<Rightarrow> session \<Rightarrow> error + user" where
  "requireRole roles d sess =
     (case sess of
        None \<Rightarrow> Inl (HttpError 401 ''Unauthorized'')
      | Some uid \<Rightarrow>
          if \<not> truthy uid then Inl (HttpError 401 ''Unauthorized'')
          else (case getUser d uid of
                  None \<Rightarrow> Inl (HttpError 403 ''Forbidden'')
                | Some u \<Rightarrow>
                    if u_role u \<in> set roles then Inr u
                    else Inl (HttpError 403 ''Forbidden'')))"

section \<open>Alert routes\<close>

text \<open>Events pushed over the WebSocket channel, with the user they are addressed to.\<close>

datatype event =
    NewAlert string department alert
  | AlertUpdated string alert_status

type_synonym notification = "string \<times> event"

subsection \<open>GET /api/alerts/department/:department\<close>

definition get_department_alerts :: "db \<Rightarrow> session \<Rightarrow> string \<Rightarrow> error + alert list" where
  "get_department_alerts d sess dept =
     (case requireRole [Staff, Admin] d sess of
        Inl e \<Rightarrow> Inl e
      | Inr u \<Rightarrow>
          if u_role u = Staff \<and> map_option dept_str (u_department u) \<noteq> Some dept
          then Inl (HttpError 403 ''Forbidden'')
          else Inr (getAlertsByDepartment d dept))"

subsection \<open>PATCH /api/alerts/:id\<close>

text \<open>The request body, before validation: a key is absent or carries a string.\<close>

record update_body =
  b_status :: "string option"
  b_responseNotes :: "string option"

record update_data =
  d_status :: alert_status
  d_responseNotes :: "string option"

fun parse_status :: "string \<Rightarrow> alert_status option" where
  "parse_status s =
     (if s = ''pending'' then Some Pending
      else if s = ''acknowledged'' then Some Acknowledged
      else if s = ''dispatched'' then Some Dispatched
      else if s = ''resolved'' then Some Resolved
      else None)"

text \<open>\<open>updateAlertStatusSchema.parse\<close>: \<open>None\<close> when zod throws.\<close>

definition updateAlertStatusSchema :: "update_body \<Rightarrow> update_data option" where
  "updateAlertStatusSchema b =
     (case b_status b of
        None \<Rightarrow> None
      | Some s \<Rightarrow>
          (case parse_status s of
             None \<Rightarrow> None
           | Some st \<Rightarrow> Some \<lparr>d_status = st, d_responseNotes = b_responseNotes b\<rparr>))"

text \<open>The table in the handler; it has no key for \<open>resolved\<close>.\<close>

fun validTransitions :: "alert_status \<Rightarrow> alert_status list option" where
  "validTransitions Pending = Some [Acknowledged, Dispatched]"
| "validTransitions Acknowledged = Some [Dispatched]"
| "validTransitions Dispatched = Some [Resolved]"
| "validTransitions Resolved = None"

text \<open>
  The condition of the \<open>if\<close> that answers 400:
  \<open>alert.status !== "pending" && validTransitions[alert.status] &&
   !validTransitions[alert.status].includes(data.status)\<close>.
\<close>

definition transition_rejected :: "alert_status \<Rightarrow> alert_status \<Rightarrow> bool" where
  "transition_rejected cur req =
     (cur \<noteq> Pending \<and>
      (case validTransitions cur of
         None \<Rightarrow> False
       | Some ts \<Rightarrow> req \<notin> set ts))"

definition build_update :: "update_data \<Rightarrow> user \<Rightarrow> timestamp \<Rightarrow> alert_update" where
  "build_update dat u now =
     (let upd0 = \<lparr>upd_status = d_status dat,
                  upd_responseNotes =
                    (case d_responseNotes dat of
                       None \<Rightarrow> None
                     | Some n \<Rightarrow> if truthy n then Some n else None),
                  upd_acknowledgedAt = None, upd_acknowledgedBy = None,
                  upd_dispatchedAt = None, upd_resolvedAt = None\<rparr>
      in if d_status dat = Acknowledged
         then upd0\<lparr>upd_acknowledgedAt := Some now, upd_acknowledgedBy := Some (u_id u)\<rparr>
         else if d_status dat = Dispatched then upd0\<lparr>upd_dispatchedAt := Some now\<rparr>
         else if d_status dat = Resolved then upd0\<lparr>upd_resolvedAt := Some now\<rparr>
         else upd0)"

text \<open>
  The handler returns the response, the database after the request and the pushes it
  asked for. \<open>now\<close> is the value of \<open>new Date()\<close>. The body is parsed before the alert
  is looked up, as in the source.
\<close>

definition patch_alert ::
  "db \<Rightarrow> session \<Rightarrow> string \<Rightarrow> update_body \<Rightarrow> timestamp
    \<Rightarrow> (error + alert option) \<times> db \<times> notification list" where
  "patch_alert d sess i body now =
     (case requireRole [Staff, Admin] d sess of
        Inl e \<Rightarrow> (Inl e, d, [])
      | Inr u \<Rightarrow>
          (case updateAlertStatusSchema body of
             None \<Rightarrow> (Inl (Caught 400 ZodError), d, [])
           | Some dat \<Rightarrow>
               (case getAlert d i of
                  None \<Rightarrow> (Inl (HttpError 404 ''Alert not found''), d, [])
                | Some a \<Rightarrow>
                    if u_role u = Staff \<and> u_department u \<noteq> Some (a_department a)
                    then (Inl (HttpError 403
                            ''Forbidden - can only manage your department's alerts''), d, [])
                    else if transition_rejected (a_status a) (d_status dat)
                    then (Inl (HttpError 400
                            (''Cannot transition from '' @ status_str (a_status a)
                               @ '' to '' @ status_str (d_status dat))), d, [])
                    else
                      (let (updated, d') = updateAlert d i (build_update dat u now)
                       in (Inr updated, d',
                           if truthy (a_userId a)
                           then [(a_userId a, AlertUpdated i (d_status dat))]
                           else [])))))"

subsection \<open>POST /api/alerts\<close>

text \<open>The request body, before validation: a key is absent (or null) or carries a value.\<close>

record alert_payload =
  p_userId :: "string option"
  p_department :: "string option"
  p_status :: "string option"
  p_latitude :: "string option"
  p_longitude :: "string option"
  p_locationName :: "string option"
  p_locationAccuracy :: "string option"
  p_situationData :: "(string \<times> string) list option"
  p_responseNotes :: "string option"

text \<open>Type \<open>InsertAlert\<close>: the columns of \<open>alerts\<close> that the insert schema does not omit.\<close>

record insert_alert =
  i_userId :: string
  i_department :: department
  i_status :: "alert_status option"
  i_latitude :: "string option"
  i_longitude :: "string option"
  i_locationName :: "string option"
  i_locationAccuracy :: "string option"
  i_situationData :: "(string \<times> string) list option"
  i_responseNotes :: "string option"

fun parse_alert_department :: "string \<Rightarrow> department option" where
  "parse_alert_department s =
     (if s = ''medical'' then Some Medical
      else if s = ''security'' then Some Security
      else None)"

text \<open>
  \<open>insertAlertSchema = createInsertSchema(alerts).omit({id, createdAt, acknowledgedAt,
  dispatchedAt, resolvedAt, acknowledgedBy})\<close>. The schema derived from the table makes
  a column without default and not null required (\<open>userId\<close>, \<open>department\<close>), a column
  with a default optional (\<open>status\<close>) and a nullable column optional; \<open>status\<close> and
  \<open>responseNotes\<close> are not in the omitted set. \<open>None\<close> when zod throws. A bound on the
  length of \<open>userId\<close> is not part of the model, which so accepts every body the code
  accepts.
\<close>

definition insertAlertSchema :: "alert_payload \<Rightarrow> insert_alert option" where
  "insertAlertSchema p =
     (case p_userId p of
        None \<Rightarrow> None
      | Some uid \<Rightarrow>
          (case p_department p of
             None \<Rightarrow> None
           | Some ds \<Rightarrow>
               (case parse_alert_department ds of
                  None \<Rightarrow> None
                | Some dep \<Rightarrow>
                    (case (case p_status p of
                             None \<Rightarrow> Some None
                           | Some s \<Rightarrow> map_option Some (parse_status s)) of
                       None \<Rightarrow> None
                     | Some st \<Rightarrow>
                         Some \<lparr>i_userId = uid, i_department = dep, i_status = st,
                               i_latitude = p_latitude p, i_longitude = p_longitude p,
                               i_locationName = p_locationName p,
                               i_locationAccuracy = p_locationAccuracy p,
                               i_situationData = p_situationData p,
                               i_responseNotes = p_responseNotes p\<rparr>))))"

text \<open>
  \<open>INSERT INTO alerts ... RETURNING *\<close>: \<open>newId\<close> is the generated uuid, \<open>now\<close> the
  database's clock; a column left out takes its default (\<open>status\<close>: pending). The
  foreign key on \<open>user_id\<close> and the primary key can make the insert throw.
\<close>

definition createAlert ::
  "db \<Rightarrow> insert_alert \<Rightarrow> string \<Rightarrow> timestamp \<Rightarrow> exn + (alert \<times> db)" where
  "createAlert d ins newId now =
     (if getUser d (i_userId ins) = None then Inl ForeignKeyViolation
      else if getAlert d newId \<noteq> None then Inl UniqueViolation
      else
        (let a = \<lparr>a_id = newId, a_userId = i_userId ins, a_department = i_department ins,
                   a_status = (case i_status ins of None \<Rightarrow> Pending | Some st \<Rightarrow> st),
                   a_latitude = i_latitude ins, a_longitude = i_longitude ins,
                   a_locationName = i_locationName ins,
                   a_locationAccuracy = i_locationAccuracy ins,
                   a_situationData = i_situationData ins,
                   a_responseNotes = i_responseNotes ins,
                   a_acknowledgedAt = None, a_dispatchedAt = None, a_resolvedAt = None,
                   a_acknowledgedBy = None, a_createdAt = now\<rparr>
         in Inr (a, d\<lparr>alerts := alerts d @ [a]\<rparr>)))"

definition getAllUsers :: "db \<Rightarrow> user list" where
  "getAllUsers d = rev (sort_key u_createdAt (users d))"

definition post_alert ::
  "db \<Rightarrow> session \<Rightarrow> alert_payload \<Rightarrow> string \<Rightarrow> timestamp
    \<Rightarrow> (error + alert) \<times> db \<times> notification list" where
  "post_alert d sess payload newId now =
     (case requireAuth sess of
        Inl e \<Rightarrow> (Inl e, d, [])
      | Inr uid \<Rightarrow>
          (case insertAlertSchema payload of
             None \<Rightarrow> (Inl (Caught 400 ZodError), d, [])
           | Some dat \<Rightarrow>
               (case createAlert d (dat\<lparr>i_userId := uid\<rparr>) newId now of
                  Inl x \<Rightarrow> (Inl (Caught 400 x), d, [])
                | Inr (a, d') \<Rightarrow>
                    (Inr a, d',
                     map (\<lambda>s. (u_id s, NewAlert (a_id a) (a_department a) a))
                       (filter (\<lambda>s. truthy (u_id s))
                          (filter (\<lambda>u. u_role u = Staff
                                        \<and> u_department u = Some (a_department a))
                             (getAllUsers d')))))))"

section \<open>Chat routes\<close>

definition getChatSession :: "db \<Rightarrow> string \<Rightarrow> chat_session option" where
  "getChatSession d i = find (\<lambda>s. cs_id s = i) (chatSessions d)"

text \<open>\<open>SELECT ... WHERE session_id = $1 ORDER BY created_at\<close>.\<close>

definition getMessagesBySession :: "db \<Rightarrow> string \<Rightarrow> message list" where
  "getMessagesBySession d sid =
     sort_key m_createdAt (filter (\<lambda>m. m_sessionId m = sid) (messages d))"

definition canAccess :: "chat_session \<Rightarrow> string \<Rightarrow> user \<Rightarrow> bool" where
  "canAccess s uid u =
     (cs_userId s = uid
      \<or> (u_role u = Staff \<and> u_department u = Some (cs_department s))
      \<or> u_role u = Admin)"

subsection \<open>GET /api/chats/messages/:sessionId\<close>

definition get_messages :: "db \<Rightarrow> session \<Rightarrow> string \<Rightarrow> error + message list" where
  "get_messages d sess sid =
     (case requireAuth sess of
        Inl e \<Rightarrow> Inl e
      | Inr uid \<Rightarrow>
          (case getChatSession d sid of
             None \<Rightarrow> Inl (HttpError 404 ''Session not found'')
           | Some s \<Rightarrow>
               (case getUser d uid of
                  None \<Rightarrow> Inl (HttpError 401 ''Unauthorized'')
                | Some u \<Rightarrow>
                    if \<not> canAccess s uid u then Inl (HttpError 403 ''Forbidden'')
                    else Inr (getMessagesBySession d sid))))"

section \<open>Authentication routes\<close>

text \<open>
  What the handlers use of their libraries: zod's test for an e-mail address, and
  bcrypt's \<open>compare\<close> and \<open>hash\<close> (the salt of a run being fixed).
\<close>

record env =
  is_email :: "string \<Rightarrow> bool"
  bcrypt_compare :: "string \<Rightarrow> string \<Rightarrow> bool"
  bcrypt_hash :: "string \<Rightarrow> string"

text \<open>A user record after \<open>const { password: _, ...userWithoutPassword } = user\<close>.\<close>

record public_user =
  pu_id :: string
  pu_email :: string
  pu_role :: role
  pu_department :: "department option"
  pu_fullName :: "string option"
  pu_phoneNumber :: "string option"
  pu_isActive :: bool
  pu_createdAt :: timestamp
  pu_lastLogin :: "timestamp option"

definition userWithoutPassword :: "user \<Rightarrow> public_user" where
  "userWithoutPassword u =
     \<lparr>pu_id = u_id u, pu_email = u_email u, pu_role = u_role u,
      pu_department = u_department u, pu_fullName = u_fullName u,
      pu_phoneNumber = u_phoneNumber u, pu_isActive = u_isActive u,
      pu_createdAt = u_createdAt u, pu_lastLogin = u_lastLogin u\<rparr>"

definition updateUserLastLogin :: "db \<Rightarrow> string \<Rightarrow> timestamp \<Rightarrow> db" where
  "updateUserLastLogin d i now =
     d\<lparr>users := map (\<lambda>u. if u_id u = i then u\<lparr>u_lastLogin := Some now\<rparr> else u) (users d)\<rparr>"

subsection \<open>POST /api/auth/login\<close>

record login_body =
  lb_email :: "string option"
  lb_password :: "string option"

definition loginSchema :: "env \<Rightarrow> login_body \<Rightarrow> (string \<times> string) option" where
  "loginSchema ev b =
     (case (lb_email b, lb_password b) of
        (Some e, Some p) \<Rightarrow> if is_email ev e \<and> 1 \<le> length p then Some (e, p) else None
      | _ \<Rightarrow> None)"

definition login ::
  "env \<Rightarrow> db \<Rightarrow> session \<Rightarrow> login_body \<Rightarrow> timestamp
    \<Rightarrow> (error + public_user) \<times> db \<times> session" where
  "login ev d sess body now =
     (case loginSchema ev body of
        None \<Rightarrow> (Inl (Caught 400 ZodError), d, sess)
      | Some (email, password) \<Rightarrow>
          (case getUserByEmail d email of
             None \<Rightarrow> (Inl (HttpError 401 ''Invalid email or password''), d, sess)
           | Some u \<Rightarrow>
               if \<not> bcrypt_compare ev password (u_password u)
               then (Inl (HttpError 401 ''Invalid email or password''), d, sess)
               else if \<not> u_isActive u
               then (Inl (HttpError 403 ''Account is inactive''), d, sess)
               else (Inr (userWithoutPassword u),
                     updateUserLastLogin d (u_id u) now, Some (u_id u))))"

subsection \<open>POST /api/auth/register\<close>

record register_body =
  rb_email :: "string option"
  rb_password :: "string option"
  rb_fullName :: "string option"
  rb_phoneNumber :: "string option"

record register_data =
  rd_email :: string
  rd_password :: string
  rd_fullName :: string
  rd_phoneNumber :: "string option"

definition registerSchema :: "env \<Rightarrow> register_body \<Rightarrow> register_data option" where
  "registerSchema ev b =
     (case (rb_email b, rb_password b, rb_fullName b) of
        (Some e, Some p, Some n) \<Rightarrow>
          if is_email ev e \<and> suffix ''@campus.edu'' e \<and> 6 \<le> length p \<and> 1 \<le> length n
          then Some \<lparr>rd_email = e, rd_password = p, rd_fullName = n,
                     rd_phoneNumber = rb_phoneNumber b\<rparr>
          else None
      | _ \<Rightarrow> None)"

text \<open>Type \<open>InsertUser\<close>.\<close>

record insert_user =
  iu_email :: string
  iu_password :: string
  iu_role :: role
  iu_department :: "department option"
  iu_fullName :: "string option"
  iu_phoneNumber :: "string option"
  iu_isActive :: bool

text \<open>
  \<open>INSERT INTO users ... RETURNING *\<close>; the unique constraint on \<open>email\<close> and the
  primary key can make the insert throw.
\<close>

definition createUser ::
  "db \<Rightarrow> insert_user \<Rightarrow> string \<Rightarrow> timestamp \<Rightarrow> exn + (user \<times> db)" where
  "createUser d ins newId now =
     (if getUserByEmail d (iu_email ins) \<noteq> None \<or> getUser d newId \<noteq> None
      then Inl UniqueViolation
      else
        (let u = \<lparr>u_id = newId, u_email = iu_email ins, u_password = iu_password ins,
                   u_role = iu_role ins, u_department = iu_department ins,
                   u_fullName = iu_fullName ins, u_phoneNumber = iu_phoneNumber ins,
                   u_isActive = iu_isActive ins, u_createdAt = now, u_lastLogin = None\<rparr>
         in Inr (u, d\<lparr>users := users d @ [u]\<rparr>)))"

definition register ::
  "env \<Rightarrow> db \<Rightarrow> session \<Rightarrow> register_body \<Rightarrow> string \<Rightarrow> timestamp
    \<Rightarrow> (error + public_user) \<times> db \<times> session" where
  "register ev d sess body newId now =
     (case registerSchema ev body of
        None \<Rightarrow> (Inl (Caught 400 ZodError), d, sess)
      | Some dat \<Rightarrow>
          if getUserByEmail d (rd_email dat) \<noteq> None
          then (Inl (HttpError 400 ''Email already registered''), d, sess)
          else
            (case createUser d
                    \<lparr>iu_email = rd_email dat,
                     iu_password = bcrypt_hash ev (rd_password dat),
                     iu_role = Student, iu_department = Some NoDept,
                     iu_fullName = Some (rd_fullName dat),
                     iu_phoneNumber = rd_phoneNumber dat, iu_isActive = True\<rparr>
                    newId now of
               Inl x \<Rightarrow> (Inl (Caught 400 x), d, sess)
             | Inr (u, d') \<Rightarrow>
                 (Inr (userWithoutPassword u),
                  updateUserLastLogin d' (u_id u) now, Some (u_id u))))"

subsection \<open>GET /api/auth/me\<close>

definition me :: "db \<Rightarrow> session \<Rightarrow> (error + public_user) \<times> session" where
  "me d sess =
     (case sess of
        None \<Rightarrow> (Inl (HttpError 401 ''Not authenticated''), sess)
      | Some uid \<Rightarrow>
          if \<not> truthy uid then (Inl (HttpError 401 ''Not authenticated''), sess)
          else (case getUser d uid of
                  None \<Rightarrow> (Inl (HttpError 401 ''User not found''), None)
                | Some u \<Rightarrow> (Inr (userWithoutPassword u), sess)))"

section \<open>Admin routes\<close>

subsection \<open>GET /api/admin/users\<close>

definition admin_users :: "db \<Rightarrow> session \<Rightarrow> error + public_user list" where
  "admin_users d sess =
     (case requireRole [Admin] d sess of
        Inl e \<Rightarrow> Inl e
      | Inr u \<Rightarrow> Inr (map userWithoutPassword (getAllUsers d)))"

subsection \<open>DELETE /api/admin/users/:id\<close>

text \<open>
  \<open>DELETE FROM users WHERE id = $1\<close>. Alerts, chat sessions, messages and audit logs
  reference \<open>users.id\<close> without a cascade, so the delete throws while a row references
  the user.
\<close>

definition user_referenced :: "db \<Rightarrow> string \<Rightarrow> bool" where
  "user_referenced d i =
     (list_ex (\<lambda>a. a_userId a = i \<or> a_acknowledgedBy a = Some i) (alerts d)
      \<or> list_ex (\<lambda>s. cs_userId s = i) (chatSessions d)
      \<or> list_ex (\<lambda>m. m_senderId m = i) (messages d)
      \<or> list_ex (\<lambda>l. l_userId l = i) (auditLogs d))"

definition deleteUser :: "db \<Rightarrow> string \<Rightarrow> exn + db" where
  "deleteUser d i =
     (if user_referenced d i then Inl ForeignKeyViolation
      else Inr (d\<lparr>users := filter (\<lambda>u. u_id u \<noteq> i) (users d)\<rparr>))"

record insert_audit_log =
  il_userId :: string
  il_action :: string
  il_targetType :: "string option"
  il_targetId :: "string option"
  il_details :: "(string \<times> string) list"

definition createAuditLog ::
  "db \<Rightarrow> insert_audit_log \<Rightarrow> string \<Rightarrow> timestamp \<Rightarrow> exn + db" where
  "createAuditLog d ins newId now =
     (if getUser d (il_userId ins) = None then Inl ForeignKeyViolation
      else if list_ex (\<lambda>l. l_id l = newId) (auditLogs d) then Inl UniqueViolation
      else Inr (d\<lparr>auditLogs := auditLogs d @
                  [\<lparr>l_id = newId, l_userId = il_userId ins, l_action = il_action ins,
                    l_targetType = il_targetType ins, l_targetId = il_targetId ins,
                    l_details = il_details ins, l_createdAt = now\<rparr>]\<rparr>))"

text \<open>
  The handler compares \<open>id\<close> with \<open>req.session.userId\<close> before it touches the
  database. The statements are not in a transaction: when the audit insert throws, the
  user stays deleted.
\<close>

definition delete_user ::
  "db \<Rightarrow> session \<Rightarrow> string \<Rightarrow> string \<Rightarrow> timestamp \<Rightarrow> (error + string) \<times> db" where
  "delete_user d sess i newId now =
     (case requireRole [Admin] d sess of
        Inl e \<Rightarrow> (Inl e, d)
      | Inr admin \<Rightarrow>
          if Some i = sess
          then (Inl (HttpError 400 ''Cannot delete your own account''), d)
          else (case getUser d i of
                  None \<Rightarrow> (Inl (HttpError 404 ''User not found''), d)
                | Some u \<Rightarrow>
                    (case deleteUser d i of
                       Inl x \<Rightarrow> (Inl (Caught 500 x), d)
                     | Inr d1 \<Rightarrow>
                         (case createAuditLog d1
                                 \<lparr>il_userId = (case sess of None \<Rightarrow> [] | Some uid \<Rightarrow> uid),
                                  il_action = ''delete_user'',
                                  il_targetType = Some ''user'', il_targetId = Some i,
                                  il_details = [(''email'', u_email u)]\<rparr>
                                 newId now of
                            Inl x \<Rightarrow> (Inl (Caught 500 x), d1)
                          | Inr d2 \<Rightarrow> (Inr ''User deleted successfully'', d2)))))"

section \<open>The connection registry (server/routes.ts)\<close>

text \<open>
  \<open>clients\<close> is a JavaScript \<open>Map\<close> from user id to a \<open>Set\<close> of sockets. Both
  iterate in insertion order, so the map is an association list and a set is a list
  without repetition. A socket is known by a number; its \<open>readyState\<close> is read through
  a function.
\<close>

type_synonym ws = nat

datatype ready_state = CONNECTING | OPEN | CLOSING | CLOSED

type_synonym clients = "(string \<times> ws list) list"

definition set_add :: "ws \<Rightarrow> ws list \<Rightarrow> ws list" where
  "set_add w s = (if w \<in> set s then s else s @ [w])"

definition set_delete :: "ws \<Rightarrow> ws list \<Rightarrow> ws list" where
  "set_delete w s = removeAll w s"

text \<open>The callback of \<open>handleUpgrade\<close>, run once the session cookie has been verified.\<close>

definition ws_register :: "clients \<Rightarrow> string \<Rightarrow> ws \<Rightarrow> clients" where
  "ws_register cl userId w =
     (let cl1 = (if map_of cl userId = None then AList.update userId [] cl else cl)
      in case map_of cl1 userId of
           None \<Rightarrow> cl1
         | Some s \<Rightarrow> AList.update userId (set_add w s) cl1)"

text \<open>The socket's \<open>close\<close> handler.\<close>

definition ws_close :: "clients \<Rightarrow> string \<Rightarrow> ws \<Rightarrow> clients" where
  "ws_close cl userId w =
     (case map_of cl userId of
        None \<Rightarrow> cl
      | Some s \<Rightarrow>
          (let s' = set_delete w s; cl1 = AList.update userId s' cl
           in if length s' = 0 then AList.delete userId cl1 else cl1))"

text \<open>
  The pushes return the list of \<open>client.send(data)\<close> calls they make: the socket and the
  serialised message.
\<close>

definition broadcastToUser ::
  "('m \<Rightarrow> string) \<Rightarrow> clients \<Rightarrow> (ws \<Rightarrow> ready_state) \<Rightarrow> string \<Rightarrow> 'm
    \<Rightarrow> (ws \<times> string) list" where
  "broadcastToUser stringify cl readyState userId msg =
     (case map_of cl userId of
        None \<Rightarrow> []
      | Some userClients \<Rightarrow>
          (let data = stringify msg
           in map (\<lambda>client. (client, data))
                (filter (\<lambda>client. readyState client = OPEN) userClients)))"

definition broadcastToAll ::
  "('m \<Rightarrow> string) \<Rightarrow> clients \<Rightarrow> (ws \<Rightarrow> ready_state) \<Rightarrow> 'm \<Rightarrow> (ws \<times> string) list" where
  "broadcastToAll stringify cl readyState msg =
     (let data = stringify msg
      in concat (map (\<lambda>(userId, userClients).
                        map (\<lambda>client. (client, data))
                          (filter (\<lambda>client. readyState client = OPEN) userClients)) cl))"

text \<open>The registry's history: sockets are registered and closed, starting from no entry.\<close>

datatype ws_event = Connect string ws | Close string ws

fun ws_step :: "clients \<Rightarrow> ws_event \<Rightarrow> clients" where
  "ws_step cl (Connect userId w) = ws_register cl userId w"
| "ws_step cl (Close userId w) = ws_close cl userId w"

definition ws_run :: "ws_event list \<Rightarrow> clients" where
  "ws_run evs = foldl ws_step [] evs"

section \<open>Specification predicates\<close>

text \<open>
  The transition table as the specification words it:
  pending to acknowledged or dispatched, acknowledged to dispatched, dispatched to
  resolved, and nothing else.
\<close>

definition table_allows :: "alert_status \<Rightarrow> alert_status \<Rightarrow> bool" where
  "table_allows cur req =
     ((cur = Pending \<and> (req = Acknowledged \<or> req = Dispatched))
      \<or> (cur = Acknowledged \<and> req = Dispatched)
      \<or> (cur = Dispatched \<and> req = Resolved))"

text \<open>A request body that carries the status \<open>st\<close> and the notes \<open>n\<close>.\<close>

definition status_body :: "alert_status \<Rightarrow> string option \<Rightarrow> update_body" where
  "status_body st n = \<lparr>b_status = Some (status_str st), b_responseNotes = n\<rparr>"

text \<open>The acting user may manage the alert: an admin, or staff of the alert's department.\<close>

definition may_manage :: "user \<Rightarrow> alert \<Rightarrow> bool" where
  "may_manage u a =
     (u_role u = Admin \<or> (u_role u = Staff \<and> u_department u = Some (a_department a)))"

text \<open>The session \<open>sess\<close> is that of the stored user \<open>u\<close>.\<close>

definition logged_in :: "db \<Rightarrow> session \<Rightarrow> user \<Rightarrow> bool" where
  "logged_in d sess u =
     (case sess of None \<Rightarrow> False | Some uid \<Rightarrow> truthy uid \<and> getUser d uid = Some u)"

text \<open>Every entry of the registry holds at least one socket; keys and sockets do not repeat.\<close>

definition registry_inv :: "clients \<Rightarrow> bool" where
  "registry_inv cl =
     (distinct (map fst cl) \<and> list_all (\<lambda>(userId, s). s \<noteq> [] \<and> distinct s) cl)"

text \<open>Two stored states that differ in nothing but the users' password hashes.\<close>

definition same_but_passwords :: "db \<Rightarrow> db \<Rightarrow> bool" where
  "same_but_passwords d1 d2 =
     (map userWithoutPassword (users d1) = map userWithoutPassword (users d2)
      \<and> alerts d1 = alerts d2 \<and> chatSessions d1 = chatSessions d2
      \<and> messages d1 = messages d2 \<and> auditLogs d1 = auditLogs d2)"

section \<open>Example data\<close>

text \<open>
  A small campus: an administrator, one member of staff in each of two departments, a
  student, and one medical alert of the student in a given status.
\<close>

definition ex_user :: "string \<Rightarrow> role \<Rightarrow> department \<Rightarrow> user" where
  "ex_user i r dep =
     \<lparr>u_id = i, u_email = i @ ''@campus.edu'', u_password = ''hash-of-'' @ i, u_role = r,
      u_department = Some dep, u_fullName = None, u_phoneNumber = None,
      u_isActive = True, u_createdAt = 1, u_lastLogin = None\<rparr>"

definition ex_alert :: "alert_status \<Rightarrow> alert" where
  "ex_alert st =
     \<lparr>a_id = ''a1'', a_userId = ''stu'', a_department = Medical, a_status = st,
      a_latitude = None, a_longitude = None, a_locationName = None,
      a_locationAccuracy = None, a_situationData = Some [(''conscious'', ''Yes'')],
      a_responseNotes = None, a_acknowledgedAt = None, a_dispatchedAt = None,
      a_resolvedAt = None, a_acknowledgedBy = None, a_createdAt = 2\<rparr>"

definition ex_db :: "alert_status \<Rightarrow> db" where
  "ex_db st =
     \<lparr>users = [ex_user ''adm'' Admin NoDept, ex_user ''med'' Staff Medical,
               ex_user ''sec'' Staff Security, ex_user ''stu'' Student NoDept],
      alerts = [ex_alert st], chatSessions = [], messages = [], auditLogs = []\<rparr>"

definition ex_payload :: "string \<Rightarrow> string option \<Rightarrow> alert_payload" where
  "ex_payload owner st =
     \<lparr>p_userId = Some owner, p_department = Some ''medical'', p_status = st,
      p_latitude = None, p_longitude = None, p_locationName = None,
      p_locationAccuracy = None, p_situationData = Some [(''conscious'', ''Yes'')],
      p_responseNotes = None\<rparr>"

definition ex_created :: "alert_status \<Rightarrow> alert" where
  "ex_created st = (ex_alert st)\<lparr>a_id := ''a2'', a_createdAt := 20\<rparr>"

definition ex_message :: "string \<Rightarrow> string \<Rightarrow> timestamp \<Rightarrow> message" where
  "ex_message i sid t =
     \<lparr>m_id = i, m_sessionId = sid, m_senderId = ''stu'', m_senderRole = Student,
      m_content = ''hello'', m_fileUrl = None, m_fileName = None, m_isRead = False,
      m_createdAt = t\<rparr>"

definition ex_session :: "string \<Rightarrow> chat_session" where
  "ex_session i =
     \<lparr>cs_id = i, cs_userId = ''stu'', cs_department = Medical, cs_anonymousId = ''User#AB12CD'',
      cs_status = Active, cs_lastMessageAt = Some 7, cs_createdAt = 3, cs_closedAt = None\<rparr>"

definition ex_chat_db :: db where
  "ex_chat_db =
     (ex_db Pending)
       \<lparr>chatSessions := [ex_session ''c1'', ex_session ''c2''],
        messages := [ex_message ''m3'' ''c1'' 7, ex_message ''m1'' ''c1'' 4,
                     ex_message ''m9'' ''c2'' 5, ex_message ''m2'' ''c1'' 6]\<rparr>"

definition ex_env :: env where
  "ex_env = \<lparr>is_email = (\<lambda>e. CHR ''@'' \<in> set e),
             bcrypt_compare = (\<lambda>p h. suffix p h),
             bcrypt_hash = (\<lambda>p. ''hash-of-'' @ p)\<rparr>"

definition ex_rehashed :: "db \<Rightarrow> db" where
  "ex_rehashed d = d\<lparr>users := map (\<lambda>u. u\<lparr>u_password := ''salt2-'' @ u_id u\<rparr>) (users d)\<rparr>"

definition ex_login :: login_body where
  "ex_login = \<lparr>lb_email = Some ''med@campus.edu'', lb_password = Some ''med''\<rparr>"

definition ex_register :: register_body where
  "ex_register = \<lparr>rb_email = Some ''new@campus.edu'', rb_password = Some ''secret1'',
                  rb_fullName = Some ''New Student'', rb_phoneNumber = None\<rparr>"

definition patch_db :: "db \<Rightarrow> session \<Rightarrow> string \<Rightarrow> alert_status \<Rightarrow> timestamp \<Rightarrow> db" where
  "patch_db d sess i st now = fst (snd (patch_alert d sess i (status_body st None) now))"

section \<open>Auxiliary lemmas\<close>

lemma parse_status_str: "parse_status (status_str st) = Some st"
  by (cases st) simp_all

lemma schema_status_body:
  "updateAlertStatusSchema (status_body st n) = Some \<lparr>d_status = st, d_responseNotes = n\<rparr>"
  by (simp add: updateAlertStatusSchema_def status_body_def parse_status_str del: parse_status.simps)

lemma requireRole_logged_in:
  "logged_in d sess u \<Longrightarrow>
   requireRole roles d sess =
     (if u_role u \<in> set roles then Inr u else Inl (HttpError 403 ''Forbidden''))"
  by (auto simp: logged_in_def requireRole_def split: option.splits)

lemma find_id_map:
  "find (\<lambda>a. a_id a = i) xs = Some a \<Longrightarrow>
   find (\<lambda>a. a_id a = i) (map (\<lambda>a. if a_id a = i then apply_update upd a else a) xs)
     = Some (apply_update upd a)"
  by (induction xs) (auto simp: apply_update_def)

lemma updateAlert_found:
  "getAlert d i = Some a \<Longrightarrow>
   updateAlert d i upd =
     (Some (apply_update upd a),
      d\<lparr>alerts := map (\<lambda>a. if a_id a = i then apply_update upd a else a) (alerts d)\<rparr>)"
  by (simp add: getAlert_def updateAlert_def find_id_map)

lemma getAlert_after_update:
  "getAlert d i = Some a \<Longrightarrow> getAlert (snd (updateAlert d i upd)) i = Some (apply_update upd a)"
  by (simp add: getAlert_def updateAlert_def find_id_map)

lemma patch_alert_authorised:
  assumes "logged_in d sess u" and "getAlert d i = Some a" and "may_manage u a"
  shows "patch_alert d sess i (status_body st n) now =
     (if transition_rejected (a_status a) st
      then (Inl (HttpError 400 (''Cannot transition from '' @ status_str (a_status a)
                               @ '' to '' @ status_str st)), d, [])
      else (Inr (Some (apply_update (build_update \<lparr>d_status = st, d_responseNotes = n\<rparr> u now) a)),
            snd (updateAlert d i (build_update \<lparr>d_status = st, d_responseNotes = n\<rparr> u now)),
            if truthy (a_userId a) then [(a_userId a, AlertUpdated i st)] else []))"
  using assms
  by (auto simp: patch_alert_def requireRole_logged_in schema_status_body may_manage_def
      updateAlert_found)

lemma transition_rejected_iff:
  "transition_rejected cur req \<longleftrightarrow>
     (cur = Acknowledged \<and> req \<noteq> Dispatched) \<or> (cur = Dispatched \<and> req \<noteq> Resolved)"
  by (cases cur) (auto simp: transition_rejected_def)

lemma status_apply_build:
  "a_status (apply_update (build_update dat u now) a) = d_status dat"
  by (simp add: apply_update_def build_update_def Let_def)


lemma ex_logged_in:
  "logged_in (ex_db st) (Some ''adm'') (ex_user ''adm'' Admin NoDept)"
  "logged_in (ex_db st) (Some ''med'') (ex_user ''med'' Staff Medical)"
  "logged_in (ex_db st) (Some ''sec'') (ex_user ''sec'' Staff Security)"
  "logged_in (ex_db st) (Some ''stu'') (ex_user ''stu'' Student NoDept)"
  by (simp_all add: logged_in_def truthy_def getUser_def ex_db_def ex_user_def)

lemma ex_getAlert: "getAlert (ex_db st) ''a1'' = Some (ex_alert st)"
  by (simp add: getAlert_def ex_db_def ex_alert_def)

lemma ex_may_manage:
  "may_manage (ex_user ''adm'' Admin NoDept) (ex_alert st)"
  "may_manage (ex_user ''med'' Staff Medical) (ex_alert st)"
  by (simp_all add: may_manage_def ex_user_def ex_alert_def)

lemma patch_alert_role_gate:
  "logged_in d sess u \<Longrightarrow> u_role u = Student \<Longrightarrow>
   patch_alert d sess i body now = (Inl (HttpError 403 ''Forbidden''), d, [])"
  by (simp add: patch_alert_def requireRole_logged_in)

lemma patch_alert_department_gate:
  "logged_in d sess u \<Longrightarrow> u_role u = Staff \<Longrightarrow> getAlert d i = Some a \<Longrightarrow>
   u_department u \<noteq> Some (a_department a) \<Longrightarrow>
   patch_alert d sess i (status_body st n) now =
     (Inl (HttpError 403 ''Forbidden - can only manage your department's alerts''), d, [])"
  by (simp add: patch_alert_def requireRole_logged_in schema_status_body)

lemma patch_alert_admin_not_forbidden:
  "logged_in d sess u \<Longrightarrow> u_role u = Admin \<Longrightarrow>
   fst (patch_alert d sess i body now) = Inl e \<Longrightarrow> status_code e \<noteq> 403"
  by (auto simp: patch_alert_def requireRole_logged_in split: option.splits if_splits prod.splits)

lemmas ex_post_defs = post_alert_def requireAuth_def truthy_def insertAlertSchema_def
  createAlert_def getUser_def getAlert_def getAllUsers_def ex_payload_def ex_created_def
  ex_db_def ex_user_def ex_alert_def Let_def

lemma ex_post_alert:
  "post_alert (ex_db Pending) (Some ''stu'') (ex_payload owner None) ''a2'' 20 =
     (Inr (ex_created Pending),
      (ex_db Pending)\<lparr>alerts := [ex_alert Pending, ex_created Pending]\<rparr>,
      [(''med'', NewAlert ''a2'' Medical (ex_created Pending))])"
  by (simp add: ex_post_defs)

lemma find_append_new:
  "find P xs = None \<Longrightarrow> P x \<Longrightarrow> find P (xs @ [x]) = Some x"
  by (induction xs) (auto split: if_splits)

lemma createAlert_result:
  "createAlert d ins newId now = Inr (a, d') \<Longrightarrow>
   a_userId a = i_userId ins \<and> a_id a = newId \<and> getAlert d' newId = Some a
   \<and> a_status a = (case i_status ins of None \<Rightarrow> Pending | Some st \<Rightarrow> st)"
  by (auto simp: createAlert_def getAlert_def Let_def find_append_new split: if_splits)

lemma requireAuth_logged_in: "logged_in d (Some uid) u \<Longrightarrow> requireAuth (Some uid) = Inr uid"
  by (simp add: logged_in_def requireAuth_def)

lemma getUser_logged_in: "logged_in d (Some uid) u \<Longrightarrow> getUser d uid = Some u"
  by (simp add: logged_in_def)

lemma ex_chat_logged_in: "logged_in ex_chat_db (Some ''med'') (ex_user ''med'' Staff Medical)"
  by (simp add: logged_in_def truthy_def getUser_def ex_chat_db_def ex_db_def ex_user_def)

lemma ex_chat_session: "getChatSession ex_chat_db ''c1'' = Some (ex_session ''c1'')"
  by (simp add: getChatSession_def ex_chat_db_def ex_session_def)

lemma ex_chat_access: "canAccess (ex_session ''c1'') ''med'' (ex_user ''med'' Staff Medical)"
  by (simp add: canAccess_def ex_session_def ex_user_def)

lemma set_update_cases:
  "(k', v') \<in> set (AList.update k v al) \<Longrightarrow> (k' = k \<and> v' = v) \<or> (k', v') \<in> set al"
  by (induction al) (auto split: if_splits)

lemma set_add_ok: "distinct s \<Longrightarrow> set_add w s \<noteq> [] \<and> distinct (set_add w s)"
  by (auto simp: set_add_def)

lemma registry_inv_iff:
  "registry_inv cl \<longleftrightarrow>
     distinct (map fst cl) \<and> (\<forall>(k, s) \<in> set cl. s \<noteq> [] \<and> distinct s)"
  by (simp add: registry_inv_def list_all_iff)

lemma map_of_register:
  "map_of (ws_register cl userId w) userId
     = Some (set_add w (case map_of cl userId of None \<Rightarrow> [] | Some s \<Rightarrow> s))"
  by (cases "map_of cl userId") (simp_all add: ws_register_def update_conv')

lemma registry_inv_register:
  assumes "registry_inv cl"
  shows "registry_inv (ws_register cl userId w)"
proof (cases "map_of cl userId")
  case None
  then have e: "ws_register cl userId w = AList.update userId [w] cl"
    by (simp add: ws_register_def update_conv' set_add_def)
  show ?thesis
    unfolding e using assms
    by (auto simp: registry_inv_iff distinct_update dest!: set_update_cases)
next
  case (Some s)
  then have e: "ws_register cl userId w = AList.update userId (set_add w s) cl"
    by (simp add: ws_register_def)
  from Some have "(userId, s) \<in> set cl"
    by (rule map_of_SomeD)
  with assms have "distinct s"
    by (auto simp: registry_inv_iff)
  then have "set_add w s \<noteq> [] \<and> distinct (set_add w s)"
    by (rule set_add_ok)
  then show ?thesis
    unfolding e using assms
    by (auto simp: registry_inv_iff distinct_update dest!: set_update_cases)
qed

lemma set_delete_cases:
  "(k', v') \<in> set (AList.delete k al) \<Longrightarrow> k' \<noteq> k \<and> (k', v') \<in> set al"
  by (auto simp: AList.delete_eq)

lemma registry_inv_close:
  assumes "registry_inv cl"
  shows "registry_inv (ws_close cl userId w)"
proof (cases "map_of cl userId")
  case None
  then show ?thesis
    using assms by (simp add: ws_close_def)
next
  case (Some s)
  from Some have "(userId, s) \<in> set cl"
    by (rule map_of_SomeD)
  with assms have d: "distinct (set_delete w s)"
    by (auto simp: registry_inv_iff set_delete_def distinct_removeAll)
  show ?thesis
  proof (cases "set_delete w s = []")
    case True
    then have e: "ws_close cl userId w = AList.delete userId cl"
      using Some by (simp add: ws_close_def Let_def delete_update_same)
    show ?thesis
      unfolding e using assms
      by (auto simp: registry_inv_iff distinct_delete dest!: set_delete_cases)
  next
    case False
    then have e: "ws_close cl userId w = AList.update userId (set_delete w s) cl"
      using Some by (simp add: ws_close_def Let_def)
    show ?thesis
      unfolding e using assms d False
      by (auto simp: registry_inv_iff distinct_update dest!: set_update_cases)
  qed
qed

lemma registry_inv_foldl:
  "registry_inv cl \<Longrightarrow> registry_inv (foldl ws_step cl evs)"
proof (induction evs arbitrary: cl)
  case Nil
  then show ?case by simp
next
  case (Cons e evs)
  have "registry_inv (ws_step cl e)"
    using Cons.prems by (cases e) (simp_all add: registry_inv_register registry_inv_close)
  then show ?case
    using Cons.IH by simp
qed

lemma registry_inv_run: "registry_inv (ws_run evs)"
  unfolding ws_run_def by (rule registry_inv_foldl) (simp add: registry_inv_def)

lemma registry_inv_nonempty:
  "registry_inv cl \<Longrightarrow> map_of cl userId = Some s \<Longrightarrow> s \<noteq> []"
  by (auto simp: registry_inv_iff dest!: map_of_SomeD)

lemma close_last:
  "map_of cl userId = Some [w] \<Longrightarrow> map_of (ws_close cl userId w) userId = None"
  by (simp add: ws_close_def set_delete_def delete_conv')

lemma broadcast_absent:
  "map_of cl userId = None \<Longrightarrow> broadcastToUser stringify cl readyState userId msg = []"
  by (simp add: broadcastToUser_def)

lemma broadcast_present:
  "map_of cl userId = Some s \<Longrightarrow>
   set (broadcastToUser stringify cl readyState userId msg)
     = (\<lambda>c. (c, stringify msg)) ` {c \<in> set s. readyState c = OPEN}"
  by (auto simp: broadcastToUser_def)

lemma register_twice:
  "\<exists>s. map_of (ws_register (ws_register cl userId w1) userId w2) userId = Some s
        \<and> w1 \<in> set s \<and> w2 \<in> set s"
  by (auto simp: map_of_register set_add_def split: option.splits)


lemmas ex_registry_defs = ws_run_def ws_register_def ws_close_def set_add_def set_delete_def

lemma ex_run:
  "ws_run [Connect ''stu'' 11, Connect ''stu'' 12, Close ''stu'' 11] = [(''stu'', [12])]"
  by (simp add: ex_registry_defs)

lemma find_map_key:
  "(\<And>x. P x = Q (f x)) \<Longrightarrow> map_option f (find P xs) = find Q (map f xs)"
  by (induction xs) simp_all

lemma getUser_public:
  assumes "same_but_passwords d1 d2"
  shows "map_option userWithoutPassword (getUser d1 i)
           = map_option userWithoutPassword (getUser d2 i)"
proof -
  have k: "\<And>u. (u_id u = i) = (pu_id (userWithoutPassword u) = i)"
    by (simp add: userWithoutPassword_def)
  have "map_option userWithoutPassword (getUser d1 i)
          = find (\<lambda>p. pu_id p = i) (map userWithoutPassword (users d1))"
    unfolding getUser_def by (rule find_map_key) (rule k)
  also have "\<dots> = find (\<lambda>p. pu_id p = i) (map userWithoutPassword (users d2))"
    using assms by (simp add: same_but_passwords_def)
  also have "\<dots> = map_option userWithoutPassword (getUser d2 i)"
    unfolding getUser_def by (rule find_map_key [symmetric]) (rule k)
  finally show ?thesis .
qed

lemma getUserByEmail_public:
  assumes "same_but_passwords d1 d2"
  shows "map_option userWithoutPassword (getUserByEmail d1 e)
           = map_option userWithoutPassword (getUserByEmail d2 e)"
proof -
  have k: "\<And>u. (u_email u = e) = (pu_email (userWithoutPassword u) = e)"
    by (simp add: userWithoutPassword_def)
  have "map_option userWithoutPassword (getUserByEmail d1 e)
          = find (\<lambda>p. pu_email p = e) (map userWithoutPassword (users d1))"
    unfolding getUserByEmail_def by (rule find_map_key) (rule k)
  also have "\<dots> = find (\<lambda>p. pu_email p = e) (map userWithoutPassword (users d2))"
    using assms by (simp add: same_but_passwords_def)
  also have "\<dots> = map_option userWithoutPassword (getUserByEmail d2 e)"
    unfolding getUserByEmail_def by (rule find_map_key [symmetric]) (rule k)
  finally show ?thesis .
qed

lemma map_insort_key:
  "map f (insort_key (\<lambda>x. k (f x)) a xs) = insort_key k (f a) (map f xs)"
  by (induction xs) simp_all

lemma map_sort_key:
  "map f (sort_key (\<lambda>x. k (f x)) xs) = sort_key k (map f xs)"
  by (induction xs) (simp_all add: map_insort_key)

lemma getAllUsers_public:
  "map userWithoutPassword (getAllUsers d)
     = rev (sort_key pu_createdAt (map userWithoutPassword (users d)))"
proof -
  have k: "u_createdAt = (\<lambda>u. pu_createdAt (userWithoutPassword u))"
    by (simp add: userWithoutPassword_def fun_eq_iff)
  have "map userWithoutPassword (sort_key u_createdAt (users d))
          = sort_key pu_createdAt (map userWithoutPassword (users d))"
    unfolding k by (rule map_sort_key)
  then show ?thesis
    by (simp add: getAllUsers_def rev_map [symmetric])
qed

lemma public_fields:
  "userWithoutPassword u1 = userWithoutPassword u2 \<Longrightarrow>
   u_role u1 = u_role u2 \<and> u_isActive u1 = u_isActive u2 \<and> u_id u1 = u_id u2"
  by (simp add: userWithoutPassword_def)

lemma requireRole_public:
  assumes "same_but_passwords d1 d2"
  shows "map_sum id userWithoutPassword (requireRole roles d1 sess)
           = map_sum id userWithoutPassword (requireRole roles d2 sess)"
proof (cases sess)
  case None
  then show ?thesis by (simp add: requireRole_def)
next
  case (Some uid)
  show ?thesis
    using getUser_public [OF assms, of uid] Some
    by (cases "getUser d1 uid"; cases "getUser d2 uid")
       (auto simp: requireRole_def dest: public_fields)
qed

lemma login_public:
  assumes "same_but_passwords d1 d2"
    and "fst (login ev d1 sess body now) \<noteq> Inl (HttpError 401 ''Invalid email or password'')"
    and "fst (login ev d2 sess body now) \<noteq> Inl (HttpError 401 ''Invalid email or password'')"
  shows "fst (login ev d1 sess body now) = fst (login ev d2 sess body now)"
proof (cases "loginSchema ev body")
  case None
  then show ?thesis by (simp add: login_def)
next
  case (Some ep)
  obtain email password where ep: "ep = (email, password)"
    by (cases ep)
  show ?thesis
    using getUserByEmail_public [OF assms(1), of email] assms(2,3) Some ep
    by (cases "getUserByEmail d1 email"; cases "getUserByEmail d2 email")
       (auto simp: login_def dest: public_fields split: if_splits)
qed

lemma createUser_public:
  assumes "same_but_passwords d1 d2"
  shows "map_sum id fst (createUser d1 ins newId now) = map_sum id fst (createUser d2 ins newId now)"
  using getUser_public [OF assms, of newId] getUserByEmail_public [OF assms, of "iu_email ins"]
  by (cases "getUser d1 newId"; cases "getUser d2 newId";
      cases "getUserByEmail d1 (iu_email ins)"; cases "getUserByEmail d2 (iu_email ins)")
     (simp_all add: createUser_def Let_def)

lemma register_public:
  assumes "same_but_passwords d1 d2"
  shows "fst (register ev d1 sess body newId now) = fst (register ev d2 sess body newId now)"
proof (cases "registerSchema ev body")
  case None
  then show ?thesis by (simp add: register_def)
next
  case (Some dat)
  let ?ins = "\<lparr>iu_email = rd_email dat, iu_password = bcrypt_hash ev (rd_password dat),
               iu_role = Student, iu_department = Some NoDept,
               iu_fullName = Some (rd_fullName dat),
               iu_phoneNumber = rd_phoneNumber dat, iu_isActive = True\<rparr>"
  have e: "(getUserByEmail d1 (rd_email dat) = None) = (getUserByEmail d2 (rd_email dat) = None)"
    using getUserByEmail_public [OF assms, of "rd_email dat"]
    by (cases "getUserByEmail d1 (rd_email dat)"; cases "getUserByEmail d2 (rd_email dat)")
       simp_all
  have c: "map_sum id fst (createUser d1 ?ins newId now)
             = map_sum id fst (createUser d2 ?ins newId now)"
    by (rule createUser_public [OF assms])
  show ?thesis
    using e c Some
    by (cases "createUser d1 ?ins newId now"; cases "createUser d2 ?ins newId now")
       (auto simp: register_def)
qed

lemma me_public:
  assumes "same_but_passwords d1 d2"
  shows "fst (me d1 sess) = fst (me d2 sess)"
proof (cases sess)
  case None
  then show ?thesis by (simp add: me_def)
next
  case (Some uid)
  show ?thesis
    using getUser_public [OF assms, of uid] Some
    by (cases "getUser d1 uid"; cases "getUser d2 uid") (auto simp: me_def)
qed

lemma admin_users_public:
  assumes "same_but_passwords d1 d2"
  shows "admin_users d1 sess = admin_users d2 sess"
proof -
  have u: "map userWithoutPassword (getAllUsers d1) = map userWithoutPassword (getAllUsers d2)"
    using assms by (simp add: getAllUsers_public same_but_passwords_def)
  show ?thesis
    using requireRole_public [OF assms, of "[Admin]" sess] u
    by (cases "requireRole [Admin] d1 sess"; cases "requireRole [Admin] d2 sess")
       (simp_all add: admin_users_def)
qed

lemma ex_same_but_passwords: "same_but_passwords d (ex_rehashed d)"
  by (simp add: same_but_passwords_def ex_rehashed_def userWithoutPassword_def)

lemma ex_login_stored:
  "fst (login ex_env (ex_db Pending) None ex_login 40)
     = Inr (userWithoutPassword (ex_user ''med'' Staff Medical))"
  by (simp add: login_def loginSchema_def getUserByEmail_def ex_env_def ex_login_def
      ex_db_def ex_user_def suffix_to_prefix)

lemma ex_login_rehashed:
  "fst (login ex_env (ex_rehashed (ex_db Pending)) None ex_login 40)
     \<noteq> Inl (HttpError 401 ''Invalid email or password'')"
  by (simp add: login_def loginSchema_def getUserByEmail_def ex_env_def ex_login_def
      ex_rehashed_def ex_db_def ex_user_def suffix_to_prefix)

lemma ex_register_result:
  "fst (register ex_env (ex_db Pending) None ex_register ''u9'' 40)
     = Inr \<lparr>pu_id = ''u9'', pu_email = ''new@campus.edu'', pu_role = Student,
            pu_department = Some NoDept, pu_fullName = Some ''New Student'',
            pu_phoneNumber = None, pu_isActive = True, pu_createdAt = 40,
            pu_lastLogin = None\<rparr>"
  by (simp add: register_def registerSchema_def createUser_def getUserByEmail_def getUser_def
      userWithoutPassword_def ex_env_def ex_register_def ex_db_def ex_user_def
      suffix_to_prefix Let_def)

lemma ex_admin_users_result:
  "admin_users (ex_db Pending) (Some ''adm'') =
     Inr (map userWithoutPassword [ex_user ''stu'' Student NoDept, ex_user ''sec'' Staff Security,
            ex_user ''med'' Staff Medical, ex_user ''adm'' Admin NoDept])"
  by (simp add: admin_users_def requireRole_def truthy_def getUser_def getAllUsers_def
      ex_db_def ex_user_def)

section \<open>Alert status transitions\<close>

text \<open>
  C1 (as amended). Let the acting user be logged in and be an admin or staff of the
  alert's department, and let the alert exist. While the alert is acknowledged or
  dispatched, a request for a status is answered 400 with the message
  "Cannot transition from ... to ...", the database unchanged, exactly when the table
  (acknowledged to dispatched, dispatched to resolved) does not allow it, and it
  succeeds, storing and returning the alert with the requested status, exactly when the
  table allows it. While the alert is pending the check is skipped: every requested
  status succeeds.
\<close>

theorem transition_check:
  assumes "logged_in d sess u" and "getAlert d i = Some a" and "may_manage u a"
  shows "(a_status a = Acknowledged \<or> a_status a = Dispatched \<longrightarrow>
            ((patch_alert d sess i (status_body st n) now =
                (Inl (HttpError 400 (''Cannot transition from '' @ status_str (a_status a)
                                       @ '' to '' @ status_str st)), d, []))
               \<longleftrightarrow> \<not> table_allows (a_status a) st)
          \<and> ((\<exists>a' d' ns. patch_alert d sess i (status_body st n) now = (Inr (Some a'), d', ns)
                  \<and> a_status a' = st \<and> getAlert d' i = Some a')
               \<longleftrightarrow> table_allows (a_status a) st))
       \<and> (a_status a = Pending \<longrightarrow>
            (\<exists>a' d' ns. patch_alert d sess i (status_body st n) now = (Inr (Some a'), d', ns)
                  \<and> a_status a' = st \<and> getAlert d' i = Some a'))"
proof -
  let ?upd = "build_update \<lparr>d_status = st, d_responseNotes = n\<rparr> u now"
  have p: "patch_alert d sess i (status_body st n) now =
     (if transition_rejected (a_status a) st
      then (Inl (HttpError 400 (''Cannot transition from '' @ status_str (a_status a)
                               @ '' to '' @ status_str st)), d, [])
      else (Inr (Some (apply_update ?upd a)), snd (updateAlert d i ?upd),
            if truthy (a_userId a) then [(a_userId a, AlertUpdated i st)] else []))"
    by (rule patch_alert_authorised [OF assms])
  have s: "a_status (apply_update ?upd a) = st"
    by (simp add: status_apply_build)
  have g: "getAlert (snd (updateAlert d i ?upd)) i = Some (apply_update ?upd a)"
    by (rule getAlert_after_update [OF assms(2)])
  have r: "a_status a = Acknowledged \<or> a_status a = Dispatched \<Longrightarrow>
           transition_rejected (a_status a) st \<longleftrightarrow> \<not> table_allows (a_status a) st"
    by (auto simp: transition_rejected_iff table_allows_def)
  have q: "a_status a = Pending \<Longrightarrow> \<not> transition_rejected (a_status a) st"
    by (simp add: transition_rejected_iff)
  show ?thesis
  proof (intro conjI impI)
    assume h: "a_status a = Acknowledged \<or> a_status a = Dispatched"
    show "(patch_alert d sess i (status_body st n) now =
                (Inl (HttpError 400 (''Cannot transition from '' @ status_str (a_status a)
                                       @ '' to '' @ status_str st)), d, []))
               \<longleftrightarrow> \<not> table_allows (a_status a) st"
      using r [OF h] by (simp add: p)
    show "(\<exists>a' d' ns. patch_alert d sess i (status_body st n) now = (Inr (Some a'), d', ns)
                  \<and> a_status a' = st \<and> getAlert d' i = Some a')
               \<longleftrightarrow> table_allows (a_status a) st"
      using r [OF h] s g by (simp add: p)
  next
    assume h: "a_status a = Pending"
    show "\<exists>a' d' ns. patch_alert d sess i (status_body st n) now = (Inr (Some a'), d', ns)
                  \<and> a_status a' = st \<and> getAlert d' i = Some a'"
      using q [OF h] s g by (simp add: p)
  qed
qed


theorem transition_check_witness:
  "logged_in (ex_db Acknowledged) (Some ''med'') (ex_user ''med'' Staff Medical)
   \<and> getAlert (ex_db Acknowledged) ''a1'' = Some (ex_alert Acknowledged)
   \<and> may_manage (ex_user ''med'' Staff Medical) (ex_alert Acknowledged)
   \<and> patch_alert (ex_db Acknowledged) (Some ''med'') ''a1'' (status_body Pending None) 9 =
       (Inl (HttpError 400 ''Cannot transition from acknowledged to pending''),
        ex_db Acknowledged, [])
   \<and> (\<exists>a' d' ns. patch_alert (ex_db Acknowledged) (Some ''med'') ''a1''
                     (status_body Dispatched None) 9 = (Inr (Some a'), d', ns)
          \<and> a_status a' = Dispatched \<and> getAlert d' ''a1'' = Some a')
   \<and> (\<exists>a' d' ns. patch_alert (ex_db Pending) (Some ''med'') ''a1''
                     (status_body Acknowledged None) 9 = (Inr (Some a'), d', ns)
          \<and> a_status a' = Acknowledged \<and> getAlert d' ''a1'' = Some a')"
  using transition_check [OF ex_logged_in(2) ex_getAlert ex_may_manage(2),
      of Acknowledged Pending None 9]
    transition_check [OF ex_logged_in(2) ex_getAlert ex_may_manage(2),
      of Acknowledged Dispatched None 9]
    transition_check [OF ex_logged_in(2) ex_getAlert ex_may_manage(2),
      of Pending Acknowledged None 9]
    ex_logged_in(2) [of Acknowledged] ex_getAlert [of Acknowledged]
    ex_may_manage(2) [of Acknowledged]
  by (simp add: ex_alert_def table_allows_def)

text \<open>
  C1 as stated fails on a pending alert: resolved is not reachable from pending under the
  table, yet the request is not rejected and the alert is stored as resolved.
\<close>

theorem transition_check_counterexample:
  "\<not> table_allows Pending Resolved
   \<and> patch_alert (ex_db Pending) (Some ''med'') ''a1'' (status_body Resolved None) 9 =
       (Inr (Some ((ex_alert Resolved)\<lparr>a_resolvedAt := Some 9\<rparr>)),
        (ex_db Pending)\<lparr>alerts := [(ex_alert Resolved)\<lparr>a_resolvedAt := Some 9\<rparr>]\<rparr>,
        [(''stu'', AlertUpdated ''a1'' Resolved)])"
  by (simp add: table_allows_def patch_alert_def requireRole_def truthy_def getUser_def
      getAlert_def updateAlert_def apply_update_def build_update_def keep_def
      updateAlertStatusSchema_def status_body_def transition_rejected_def
      ex_db_def ex_user_def ex_alert_def)

text \<open>
  C2 (the code at the failing input). The medical staff member takes the student's alert
  from pending through acknowledged and dispatched to resolved; a fourth request, for
  pending, is accepted and the resolved alert is pending again.
\<close>

theorem resolved_alert_reopened:
  "getAlert (patch_db (patch_db (patch_db (ex_db Pending) (Some ''med'') ''a1'' Acknowledged 10)
                         (Some ''med'') ''a1'' Dispatched 11)
               (Some ''med'') ''a1'' Resolved 12) ''a1''
     = Some ((ex_alert Resolved)\<lparr>a_acknowledgedAt := Some 10, a_acknowledgedBy := Some ''med'',
                                a_dispatchedAt := Some 11, a_resolvedAt := Some 12\<rparr>)
   \<and> patch_alert (patch_db (patch_db (patch_db (ex_db Pending) (Some ''med'') ''a1'' Acknowledged 10)
                             (Some ''med'') ''a1'' Dispatched 11)
                   (Some ''med'') ''a1'' Resolved 12)
        (Some ''med'') ''a1'' (status_body Pending None) 13
     = (Inr (Some ((ex_alert Pending)\<lparr>a_acknowledgedAt := Some 10, a_acknowledgedBy := Some ''med'',
                                      a_dispatchedAt := Some 11, a_resolvedAt := Some 12\<rparr>)),
        (ex_db Pending)\<lparr>alerts := [(ex_alert Pending)\<lparr>a_acknowledgedAt := Some 10,
                                       a_acknowledgedBy := Some ''med'',
                                       a_dispatchedAt := Some 11, a_resolvedAt := Some 12\<rparr>]\<rparr>,
        [(''stu'', AlertUpdated ''a1'' Pending)])"
  by (simp add: patch_db_def patch_alert_def requireRole_def truthy_def getUser_def
      getAlert_def updateAlert_def apply_update_def build_update_def keep_def
      updateAlertStatusSchema_def status_body_def transition_rejected_def
      ex_db_def ex_user_def ex_alert_def)

text \<open>
  C7. For a pending alert and an acting user who is an admin or staff of the alert's
  department, an update request for a status succeeds, and the alert it stores and
  returns carries the stamp of that status: for acknowledged, \<open>acknowledgedAt\<close> is
  the time of the request and \<open>acknowledgedBy\<close> the acting user's id; for dispatched,
  \<open>dispatchedAt\<close> is the time of the request; for resolved, \<open>resolvedAt\<close> is.
\<close>

theorem status_stamps:
  assumes "logged_in d sess u" and "getAlert d i = Some a" and "a_status a = Pending"
    and "may_manage u a"
  shows "\<exists>a' d' ns. patch_alert d sess i (status_body st n) now = (Inr (Some a'), d', ns)
           \<and> getAlert d' i = Some a' \<and> a_status a' = st
           \<and> (st = Acknowledged \<longrightarrow>
                a_acknowledgedAt a' = Some now \<and> a_acknowledgedBy a' = Some (u_id u))
           \<and> (st = Dispatched \<longrightarrow> a_dispatchedAt a' = Some now)
           \<and> (st = Resolved \<longrightarrow> a_resolvedAt a' = Some now)"
proof -
  let ?upd = "build_update \<lparr>d_status = st, d_responseNotes = n\<rparr> u now"
  let ?a = "apply_update ?upd a"
  have "\<not> transition_rejected (a_status a) st"
    using assms(3) by (simp add: transition_rejected_iff)
  then have p: "patch_alert d sess i (status_body st n) now =
      (Inr (Some ?a), snd (updateAlert d i ?upd),
       if truthy (a_userId a) then [(a_userId a, AlertUpdated i st)] else [])"
    using patch_alert_authorised [OF assms(1,2,4), of st n now] by simp
  have g: "getAlert (snd (updateAlert d i ?upd)) i = Some ?a"
    by (rule getAlert_after_update [OF assms(2)])
  have s: "a_status ?a = st"
    by (simp add: status_apply_build)
  have k: "st = Acknowledged \<longrightarrow>
             a_acknowledgedAt ?a = Some now \<and> a_acknowledgedBy ?a = Some (u_id u)"
    by (simp add: apply_update_def build_update_def keep_def)
  have l: "st = Dispatched \<longrightarrow> a_dispatchedAt ?a = Some now"
    by (simp add: apply_update_def build_update_def keep_def)
  have m: "st = Resolved \<longrightarrow> a_resolvedAt ?a = Some now"
    by (simp add: apply_update_def build_update_def keep_def)
  show ?thesis
    using p g s k l m by blast
qed

theorem status_stamps_witness:
  "logged_in (ex_db Pending) (Some ''med'') (ex_user ''med'' Staff Medical)
   \<and> getAlert (ex_db Pending) ''a1'' = Some (ex_alert Pending)
   \<and> a_status (ex_alert Pending) = Pending
   \<and> may_manage (ex_user ''med'' Staff Medical) (ex_alert Pending)
   \<and> (\<exists>a' d' ns. patch_alert (ex_db Pending) (Some ''med'') ''a1''
                     (status_body Acknowledged None) 9 = (Inr (Some a'), d', ns)
          \<and> a_acknowledgedAt a' = Some 9 \<and> a_acknowledgedBy a' = Some ''med'')
   \<and> (\<exists>a' d' ns. patch_alert (ex_db Pending) (Some ''med'') ''a1''
                     (status_body Dispatched None) 9 = (Inr (Some a'), d', ns)
          \<and> a_dispatchedAt a' = Some 9)
   \<and> (\<exists>a' d' ns. patch_alert (ex_db Pending) (Some ''med'') ''a1''
                     (status_body Resolved None) 9 = (Inr (Some a'), d', ns)
          \<and> a_resolvedAt a' = Some 9)"
proof -
  have h: "a_status (ex_alert Pending) = Pending"
    by (simp add: ex_alert_def)
  have i: "u_id (ex_user ''med'' Staff Medical) = ''med''"
    by (simp add: ex_user_def)
  show ?thesis
    using status_stamps [OF ex_logged_in(2) ex_getAlert h ex_may_manage(2), of Acknowledged None 9]
      status_stamps [OF ex_logged_in(2) ex_getAlert h ex_may_manage(2), of Dispatched None 9]
      status_stamps [OF ex_logged_in(2) ex_getAlert h ex_may_manage(2), of Resolved None 9]
      ex_logged_in(2) [of Pending] ex_getAlert [of Pending] ex_may_manage(2) [of Pending] h i
    by (simp; blast)
qed


section \<open>Department scope\<close>

text \<open>
  C3. For a logged-in user: staff whose department differs from the requested one is
  answered 403 by the department listing, and staff whose department differs from that
  of an existing alert is answered 403 by a status update; a student is answered 403 by
  the role gate of both routes, whatever the request; an admin gets the listing of any
  department and is never answered 403 by the update.
\<close>

theorem department_scope:
  assumes "logged_in d sess u"
  shows "(u_role u = Staff \<and> map_option dept_str (u_department u) \<noteq> Some dept \<longrightarrow>
            get_department_alerts d sess dept = Inl (HttpError 403 ''Forbidden''))
       \<and> (u_role u = Staff \<and> getAlert d i = Some a \<and> u_department u \<noteq> Some (a_department a) \<longrightarrow>
            patch_alert d sess i (status_body st n) now =
              (Inl (HttpError 403 ''Forbidden - can only manage your department's alerts''),
               d, []))
       \<and> (u_role u = Student \<longrightarrow>
            get_department_alerts d sess dept = Inl (HttpError 403 ''Forbidden'')
            \<and> patch_alert d sess i body now = (Inl (HttpError 403 ''Forbidden''), d, []))
       \<and> (u_role u = Admin \<longrightarrow>
            get_department_alerts d sess dept = Inr (getAlertsByDepartment d dept)
            \<and> (\<forall>e. fst (patch_alert d sess i body now) = Inl e \<longrightarrow> status_code e \<noteq> 403))"
proof (intro conjI impI allI)
  assume "u_role u = Staff \<and> map_option dept_str (u_department u) \<noteq> Some dept"
  then show "get_department_alerts d sess dept = Inl (HttpError 403 ''Forbidden'')"
    using assms by (simp add: get_department_alerts_def requireRole_logged_in)
next
  assume "u_role u = Staff \<and> getAlert d i = Some a \<and> u_department u \<noteq> Some (a_department a)"
  then show "patch_alert d sess i (status_body st n) now =
              (Inl (HttpError 403 ''Forbidden - can only manage your department's alerts''),
               d, [])"
    using assms by (simp add: patch_alert_department_gate)
next
  assume "u_role u = Student"
  then show "get_department_alerts d sess dept = Inl (HttpError 403 ''Forbidden'')"
    using assms by (simp add: get_department_alerts_def requireRole_logged_in)
next
  assume "u_role u = Student"
  then show "patch_alert d sess i body now = (Inl (HttpError 403 ''Forbidden''), d, [])"
    using assms by (simp add: patch_alert_role_gate)
next
  assume "u_role u = Admin"
  then show "get_department_alerts d sess dept = Inr (getAlertsByDepartment d dept)"
    using assms by (simp add: get_department_alerts_def requireRole_logged_in)
next
  fix e
  assume "u_role u = Admin" and "fst (patch_alert d sess i body now) = Inl e"
  then show "status_code e \<noteq> 403"
    using assms patch_alert_admin_not_forbidden by blast
qed

theorem department_scope_witness:
  "logged_in (ex_db Pending) (Some ''sec'') (ex_user ''sec'' Staff Security)
   \<and> get_department_alerts (ex_db Pending) (Some ''sec'') ''medical''
       = Inl (HttpError 403 ''Forbidden'')
   \<and> getAlert (ex_db Pending) ''a1'' = Some (ex_alert Pending)
   \<and> patch_alert (ex_db Pending) (Some ''sec'') ''a1'' (status_body Acknowledged None) 9 =
       (Inl (HttpError 403 ''Forbidden - can only manage your department's alerts''),
        ex_db Pending, [])
   \<and> logged_in (ex_db Pending) (Some ''stu'') (ex_user ''stu'' Student NoDept)
   \<and> get_department_alerts (ex_db Pending) (Some ''stu'') ''medical''
       = Inl (HttpError 403 ''Forbidden'')
   \<and> patch_alert (ex_db Pending) (Some ''stu'') ''a1'' (status_body Acknowledged None) 9 =
       (Inl (HttpError 403 ''Forbidden''), ex_db Pending, [])
   \<and> logged_in (ex_db Pending) (Some ''adm'') (ex_user ''adm'' Admin NoDept)
   \<and> get_department_alerts (ex_db Pending) (Some ''adm'') ''medical''
       = Inr (getAlertsByDepartment (ex_db Pending) ''medical'')
   \<and> fst (patch_alert (ex_db Pending) (Some ''adm'') ''zz'' (status_body Acknowledged None) 9)
       = Inl (HttpError 404 ''Alert not found'')
   \<and> status_code (HttpError 404 ''Alert not found'') \<noteq> 403"
proof -
  note t = department_scope [where dept = "''medical''" and i = "''a1''"
      and a = "ex_alert Pending" and st = Acknowledged and n = None and now = 9
      and body = "status_body Acknowledged None"]
  have m: "fst (patch_alert (ex_db Pending) (Some ''adm'') ''zz''
                  (status_body Acknowledged None) 9) = Inl (HttpError 404 ''Alert not found'')"
    by (simp add: patch_alert_def requireRole_def truthy_def getUser_def getAlert_def
        updateAlertStatusSchema_def status_body_def ex_db_def ex_user_def ex_alert_def)
  have a: "status_code (HttpError 404 ''Alert not found'') \<noteq> 403"
    using department_scope [OF ex_logged_in(1), where i = "''zz''"
        and body = "status_body Acknowledged None" and now = 9] m
    by (simp add: ex_user_def)
  show ?thesis
    using t [OF ex_logged_in(3)] t [OF ex_logged_in(4)] t [OF ex_logged_in(1)]
      ex_logged_in [of Pending] ex_getAlert [of Pending] m a
    by (simp add: ex_user_def ex_alert_def)
qed

section \<open>Alert creation\<close>

text \<open>
  C4 (the code at the failing input). The student posts an alert whose body carries
  \<open>status: "resolved"\<close>. The insert schema keeps the key, the handler overrides only
  \<open>userId\<close>, and the alert is created, returned and pushed to the medical staff with
  status resolved.
\<close>

theorem created_alert_not_pending:
  "post_alert (ex_db Pending) (Some ''stu'') (ex_payload [] (Some ''resolved'')) ''a2'' 20 =
     (Inr (ex_created Resolved),
      (ex_db Pending)\<lparr>alerts := [ex_alert Pending, ex_created Resolved]\<rparr>,
      [(''med'', NewAlert ''a2'' Medical (ex_created Resolved))])
   \<and> a_status (ex_created Resolved) = Resolved"
  by (simp add: ex_post_defs)

text \<open>
  C5. When alert creation succeeds, the owner of the created alert is the user id of the
  requester's session, whatever \<open>userId\<close> the body carried, and the alert is stored
  under its id.
\<close>

theorem created_alert_owner:
  assumes "post_alert d sess payload newId now = (Inr a, d', ns)"
  shows "sess = Some (a_userId a) \<and> getAlert d' (a_id a) = Some a"
proof -
  from assms obtain uid where u: "requireAuth sess = Inr uid"
    by (auto simp: post_alert_def split: sum.splits)
  then have s: "sess = Some uid"
    by (auto simp: requireAuth_def split: option.splits if_splits)
  from assms u obtain dat where
    c: "createAlert d (dat\<lparr>i_userId := uid\<rparr>) newId now = Inr (a, d')"
    by (auto simp: post_alert_def split: option.splits sum.splits)
  from createAlert_result [OF c] s show ?thesis
    by simp
qed

theorem created_alert_owner_witness:
  "post_alert (ex_db Pending) (Some ''stu'') (ex_payload [] None) ''a2'' 20 =
     (Inr (ex_created Pending),
      (ex_db Pending)\<lparr>alerts := [ex_alert Pending, ex_created Pending]\<rparr>,
      [(''med'', NewAlert ''a2'' Medical (ex_created Pending))])
   \<and> post_alert (ex_db Pending) (Some ''stu'') (ex_payload ''adm'' None) ''a2'' 20 =
     (Inr (ex_created Pending),
      (ex_db Pending)\<lparr>alerts := [ex_alert Pending, ex_created Pending]\<rparr>,
      [(''med'', NewAlert ''a2'' Medical (ex_created Pending))])
   \<and> Some ''stu'' = Some (a_userId (ex_created Pending))
   \<and> getAlert ((ex_db Pending)\<lparr>alerts := [ex_alert Pending, ex_created Pending]\<rparr>)
        (a_id (ex_created Pending)) = Some (ex_created Pending)"
  using created_alert_owner [OF ex_post_alert [of "[]"]]
    created_alert_owner [OF ex_post_alert [of "''adm''"]]
    ex_post_alert [of "[]"] ex_post_alert [of "''adm''"]
  by simp

section \<open>Administration\<close>

text \<open>
  C6. An admin who asks for the deletion of their own account is answered 400
  "Cannot delete your own account", and the database (users and audit logs included)
  is the one before the request.
\<close>

theorem self_delete_rejected:
  assumes "logged_in d (Some uid) u" and "u_role u = Admin"
  shows "delete_user d (Some uid) uid newId now =
           (Inl (HttpError 400 ''Cannot delete your own account''), d)"
  using assms by (simp add: delete_user_def requireRole_logged_in)

theorem self_delete_rejected_witness:
  "logged_in (ex_db Pending) (Some ''adm'') (ex_user ''adm'' Admin NoDept)
   \<and> u_role (ex_user ''adm'' Admin NoDept) = Admin
   \<and> delete_user (ex_db Pending) (Some ''adm'') ''adm'' ''log1'' 30 =
       (Inl (HttpError 400 ''Cannot delete your own account''), ex_db Pending)"
proof -
  have r: "u_role (ex_user ''adm'' Admin NoDept) = Admin"
    by (simp add: ex_user_def)
  show ?thesis
    using self_delete_rejected [OF ex_logged_in(1) r, of Pending "''log1''" 30]
      ex_logged_in(1) [of Pending] r
    by simp
qed


section \<open>Chat messages\<close>

text \<open>
  C8. For a logged-in user who may read an existing chat session (its owner, staff of its
  department, or an admin), the listing succeeds and returns the messages of that
  session, each as often as it is stored, in non-decreasing order of creation time.
\<close>

theorem messages_oldest_first:
  assumes "logged_in d (Some uid) u" and "getChatSession d sid = Some s"
    and "canAccess s uid u"
  shows "\<exists>ms. get_messages d (Some uid) sid = Inr ms
           \<and> sorted (map m_createdAt ms)
           \<and> mset ms = mset (filter (\<lambda>m. m_sessionId m = sid) (messages d))"
proof -
  have "get_messages d (Some uid) sid = Inr (getMessagesBySession d sid)"
    using assms
    by (simp add: get_messages_def requireAuth_logged_in getUser_logged_in)
  moreover have "sorted (map m_createdAt (getMessagesBySession d sid))"
    by (simp add: getMessagesBySession_def)
  moreover have "mset (getMessagesBySession d sid)
                   = mset (filter (\<lambda>m. m_sessionId m = sid) (messages d))"
    by (simp add: getMessagesBySession_def)
  ultimately show ?thesis
    by blast
qed

theorem messages_oldest_first_witness:
  "logged_in ex_chat_db (Some ''med'') (ex_user ''med'' Staff Medical)
   \<and> getChatSession ex_chat_db ''c1'' = Some (ex_session ''c1'')
   \<and> canAccess (ex_session ''c1'') ''med'' (ex_user ''med'' Staff Medical)
   \<and> (\<exists>ms. get_messages ex_chat_db (Some ''med'') ''c1'' = Inr ms
          \<and> sorted (map m_createdAt ms)
          \<and> mset ms = mset [ex_message ''m3'' ''c1'' 7, ex_message ''m1'' ''c1'' 4,
                             ex_message ''m2'' ''c1'' 6])"
proof -
  have f: "filter (\<lambda>m. m_sessionId m = ''c1'') (messages ex_chat_db)
             = [ex_message ''m3'' ''c1'' 7, ex_message ''m1'' ''c1'' 4,
                ex_message ''m2'' ''c1'' 6]"
    by (simp add: ex_chat_db_def ex_message_def)
  show ?thesis
    using messages_oldest_first [OF ex_chat_logged_in ex_chat_session ex_chat_access]
      ex_chat_logged_in ex_chat_session ex_chat_access
    unfolding f by simp
qed

section \<open>Connection registry\<close>

text \<open>
  C9. After any history of registrations and closings the registry is well formed, and
  every user id it holds maps to a non-empty set of sockets. Closing the only socket of
  a user removes the user's entry, and a push to that user then sends nothing. A push to
  a registered user sends the serialised message to exactly the sockets of the user's
  set whose ready state is open; so after two registrations for a user, both sockets
  being open, a push reaches both.
\<close>

theorem registry_delivery:
  "registry_inv (ws_run evs)
   \<and> (map_of (ws_run evs) userId = Some s \<longrightarrow> s \<noteq> [])
   \<and> (map_of cl userId = Some [w] \<longrightarrow>
        map_of (ws_close cl userId w) userId = None
        \<and> broadcastToUser stringify (ws_close cl userId w) readyState userId msg = [])
   \<and> (map_of cl userId = Some userClients \<longrightarrow>
        ((c, data) \<in> set (broadcastToUser stringify cl readyState userId msg)
           \<longleftrightarrow> c \<in> set userClients \<and> readyState c = OPEN \<and> data = stringify msg))
   \<and> (readyState w1 = OPEN \<and> readyState w2 = OPEN \<longrightarrow>
        (w1, stringify msg)
          \<in> set (broadcastToUser stringify (ws_register (ws_register cl userId w1) userId w2)
                   readyState userId msg)
        \<and> (w2, stringify msg)
          \<in> set (broadcastToUser stringify (ws_register (ws_register cl userId w1) userId w2)
                   readyState userId msg))"
proof (intro conjI impI)
  show "registry_inv (ws_run evs)"
    by (rule registry_inv_run)
next
  assume "map_of (ws_run evs) userId = Some s"
  then show "s \<noteq> []"
    using registry_inv_run registry_inv_nonempty by blast
next
  assume "map_of cl userId = Some [w]"
  then show "map_of (ws_close cl userId w) userId = None"
    by (rule close_last)
next
  assume "map_of cl userId = Some [w]"
  then have "map_of (ws_close cl userId w) userId = None"
    by (rule close_last)
  then show "broadcastToUser stringify (ws_close cl userId w) readyState userId msg = []"
    by (rule broadcast_absent)
next
  assume "map_of cl userId = Some userClients"
  then show "(c, data) \<in> set (broadcastToUser stringify cl readyState userId msg)
           \<longleftrightarrow> c \<in> set userClients \<and> readyState c = OPEN \<and> data = stringify msg"
    by (auto simp: broadcast_present)
next
  let ?cl = "ws_register (ws_register cl userId w1) userId w2"
  assume o: "readyState w1 = OPEN \<and> readyState w2 = OPEN"
  obtain t where t: "map_of ?cl userId = Some t" "w1 \<in> set t" "w2 \<in> set t"
    using register_twice by blast
  show "(w1, stringify msg) \<in> set (broadcastToUser stringify ?cl readyState userId msg)"
    using o t by (simp add: broadcast_present)
  show "(w2, stringify msg) \<in> set (broadcastToUser stringify ?cl readyState userId msg)"
    using o t by (simp add: broadcast_present)
qed

theorem registry_delivery_witness:
  "registry_inv (ws_run [Connect ''stu'' 11, Connect ''stu'' 12, Close ''stu'' 11])
   \<and> map_of (ws_run [Connect ''stu'' 11, Connect ''stu'' 12, Close ''stu'' 11]) ''stu'' = Some [12]
   \<and> [12::nat] \<noteq> []
   \<and> map_of (ws_close [(''stu'', [12])] ''stu'' 12) ''stu'' = None
   \<and> broadcastToUser id (ws_close [(''stu'', [12])] ''stu'' 12) (\<lambda>c. OPEN) ''stu'' ''ping'' = []
   \<and> (11, ''ping'')
        \<in> set (broadcastToUser id [(''stu'', [11, 12, 13])]
                 (\<lambda>c. if c = 13 then CLOSED else OPEN) ''stu'' ''ping'')
   \<and> (13, ''ping'')
        \<notin> set (broadcastToUser id [(''stu'', [11, 12, 13])]
                 (\<lambda>c. if c = 13 then CLOSED else OPEN) ''stu'' ''ping'')
   \<and> (11, ''ping'')
        \<in> set (broadcastToUser id (ws_register (ws_register [] ''stu'' 11) ''stu'' 12)
                 (\<lambda>c. OPEN) ''stu'' ''ping'')
   \<and> (12, ''ping'')
        \<in> set (broadcastToUser id (ws_register (ws_register [] ''stu'' 11) ''stu'' 12)
                 (\<lambda>c. OPEN) ''stu'' ''ping'')"
proof -
  have a: "map_of [(''stu'', [12::nat])] ''stu'' = Some [12]"
    by simp
  have b: "map_of [(''stu'', [11::nat, 12, 13])] ''stu'' = Some [11, 12, 13]"
    by simp
  have r: "map_of (ws_run [Connect ''stu'' 11, Connect ''stu'' 12, Close ''stu'' 11]) ''stu''
             = Some [12]"
    by (simp add: ex_run)
  note t1 = registry_delivery [where evs = "[Connect ''stu'' 11, Connect ''stu'' 12, Close ''stu'' 11]"
      and userId = "''stu''" and s = "[12]" and cl = "[(''stu'', [12])]" and w = 12
      and stringify = id and readyState = "\<lambda>c. OPEN" and msg = "''ping''"
      and userClients = "[12]" and c = 12 and data = "''ping''" and ?w1.0 = 11 and ?w2.0 = 12]
  note t2 = registry_delivery [where evs = "[]" and userId = "''stu''" and s = "[]"
      and cl = "[(''stu'', [11, 12, 13])]" and w = 11 and stringify = id
      and readyState = "\<lambda>c. if c = 13 then CLOSED else OPEN" and msg = "''ping''"
      and userClients = "[11, 12, 13]" and data = "''ping''" and ?w1.0 = 11 and ?w2.0 = 12]
  note t3 = registry_delivery [where evs = "[]" and userId = "''stu''" and s = "[]"
      and cl = "[]" and w = 11 and stringify = id and readyState = "\<lambda>c. OPEN"
      and msg = "''ping''" and userClients = "[]" and c = 11 and data = "''ping''"
      and ?w1.0 = 11 and ?w2.0 = 12]
  have i1: "registry_inv (ws_run [Connect ''stu'' 11, Connect ''stu'' 12, Close ''stu'' 11])"
    using t1 by (rule conjunct1)
  have i2: "[12::nat] \<noteq> []"
    using t1 r by blast
  have i3: "map_of (ws_close [(''stu'', [12])] ''stu'' 12) ''stu'' = None
            \<and> broadcastToUser id (ws_close [(''stu'', [12])] ''stu'' 12) (\<lambda>c. OPEN)
                ''stu'' ''ping'' = []"
    using t1 a by blast
  have i4: "(11, ''ping'')
              \<in> set (broadcastToUser id [(''stu'', [11, 12, 13])]
                       (\<lambda>c. if c = 13 then CLOSED else OPEN) ''stu'' ''ping'')"
    using t2 [where c = 11] b by simp
  have i5: "(13, ''ping'')
              \<notin> set (broadcastToUser id [(''stu'', [11, 12, 13])]
                       (\<lambda>c. if c = 13 then CLOSED else OPEN) ''stu'' ''ping'')"
    using t2 [where c = 13] b by simp
  have i6: "(11, ''ping'')
              \<in> set (broadcastToUser id (ws_register (ws_register [] ''stu'' 11) ''stu'' 12)
                       (\<lambda>c. OPEN) ''stu'' ''ping'')
            \<and> (12, ''ping'')
              \<in> set (broadcastToUser id (ws_register (ws_register [] ''stu'' 11) ''stu'' 12)
                       (\<lambda>c. OPEN) ''stu'' ''ping'')"
    using t3 by simp
  show ?thesis
    using r i1 i2 i3 i4 i5 i6 by blast
qed


section \<open>Password hashes\<close>

text \<open>
  C10. The responses of login, registration, the current-user route and the admin user
  listing carry user records without the password field, and they do not depend on the
  stored hashes: for two databases that differ only in password hashes, the same request
  gets the same response from registration, from the current-user route and from the
  listing, and from login whenever neither run answers "Invalid email or password".
\<close>

theorem responses_hide_password_hashes:
  assumes "same_but_passwords d1 d2"
  shows "(fst (login ev d1 sess lbody now) \<noteq> Inl (HttpError 401 ''Invalid email or password'')
          \<and> fst (login ev d2 sess lbody now) \<noteq> Inl (HttpError 401 ''Invalid email or password'')
          \<longrightarrow> fst (login ev d1 sess lbody now) = fst (login ev d2 sess lbody now))
       \<and> fst (register ev d1 sess rbody newId now) = fst (register ev d2 sess rbody newId now)
       \<and> fst (me d1 sess) = fst (me d2 sess)
       \<and> admin_users d1 sess = admin_users d2 sess"
  using login_public [OF assms] register_public [OF assms] me_public [OF assms]
    admin_users_public [OF assms]
  by blast


theorem responses_hide_password_hashes_witness:
  "same_but_passwords (ex_db Pending) (ex_rehashed (ex_db Pending))
   \<and> fst (login ex_env (ex_db Pending) None ex_login 40)
        \<noteq> Inl (HttpError 401 ''Invalid email or password'')
   \<and> fst (login ex_env (ex_rehashed (ex_db Pending)) None ex_login 40)
        \<noteq> Inl (HttpError 401 ''Invalid email or password'')
   \<and> fst (login ex_env (ex_rehashed (ex_db Pending)) None ex_login 40)
        = Inr (userWithoutPassword (ex_user ''med'' Staff Medical))
   \<and> fst (register ex_env (ex_db Pending) None ex_register ''u9'' 40)
        = fst (register ex_env (ex_rehashed (ex_db Pending)) None ex_register ''u9'' 40)
   \<and> fst (me (ex_db Pending) (Some ''med'')) = fst (me (ex_rehashed (ex_db Pending)) (Some ''med''))
   \<and> admin_users (ex_db Pending) (Some ''adm'')
        = admin_users (ex_rehashed (ex_db Pending)) (Some ''adm'')"
proof -
  have n: "fst (login ex_env (ex_db Pending) None ex_login 40)
             \<noteq> Inl (HttpError 401 ''Invalid email or password'')"
    by (simp add: ex_login_stored)
  note t1 = responses_hide_password_hashes [OF ex_same_but_passwords [of "ex_db Pending"],
      where ev = ex_env and sess = None and lbody = ex_login
      and now = 40 and rbody = ex_register and newId = "''u9''"]
  note t2 = responses_hide_password_hashes [OF ex_same_but_passwords [of "ex_db Pending"],
      where ev = ex_env and sess = "Some ''med''" and lbody = ex_login
      and now = 40 and rbody = ex_register and newId = "''u9''"]
  note t3 = responses_hide_password_hashes [OF ex_same_but_passwords [of "ex_db Pending"],
      where ev = ex_env and sess = "Some ''adm''" and lbody = ex_login
      and now = 40 and rbody = ex_register and newId = "''u9''"]
  have l: "fst (login ex_env (ex_rehashed (ex_db Pending)) None ex_login 40)
             = Inr (userWithoutPassword (ex_user ''med'' Staff Medical))"
    using t1 n ex_login_rehashed ex_login_stored by simp
  show ?thesis
    using ex_same_but_passwords [of "ex_db Pending"] n ex_login_rehashed l t1 t2 t3
    by blast
qed

end
